theory Spec2Isabelle
  imports Main "HOL-Library.Product_Lexorder" "HOL-Library.AList" "HOL-Library.Sublist"
begin

section \<open>Data model\<close>

text \<open>
  The repository is a browser task board. The source at hand holds two modules: the task card
  view (\<^verbatim>\<open>createTaskTemplate\<close>, \<^verbatim>\<open>TaskView\<close>) and the board presenter
  (\<^verbatim>\<open>BoardPresenter\<close>). Everything the presenter imports (\<^verbatim>\<open>const.js\<close>,
  \<^verbatim>\<open>utils/task.js\<close>, \<^verbatim>\<open>utils/filter.js\<close>, the item and creation presenters, the
  models, the UI blocker) is absent and is either taken as a parameter or modelled from the
  specification; each such definition says so.
\<close>

type_synonym task_id = nat

text \<open>A task as \<^verbatim>\<open>createTaskTemplate\<close> destructures it, plus the \<^verbatim>\<open>id\<close> the presenter
  reads. A due date is a point in time (milliseconds) or \<^verbatim>\<open>null\<close>.\<close>

record task =
  id_task :: task_id
  color :: string
  description :: string
  dueDate :: "int option"
  repeating :: "(string \<times> bool) list"
  isArchive :: bool
  isFavorite :: bool

text \<open>The enumerations of \<^verbatim>\<open>const.js\<close>, with the members the presenter names. The filter
  categories are the ones the specification lists; the presenter itself only names
  \<^verbatim>\<open>FilterType.ALL\<close>.\<close>

datatype sort_type = DEFAULT | DATE_UP | DATE_DOWN

datatype update_type = PATCH | MINOR | MAJOR | INIT

datatype user_action = UPDATE_TASK | ADD_TASK | DELETE_TASK

datatype filter_type =
  FilterType_ALL | FilterType_FAVORITES | FilterType_REPEATING | FilterType_OVERDUE | FilterType_ARCHIVE

definition TASK_COUNT_PER_STEP :: nat where
  "TASK_COUNT_PER_STEP = 8"

section \<open>Sorting and filtering helpers\<close>

text \<open>\<^verbatim>\<open>Array.prototype.sort(compareFn)\<close>: a stable sort; an element moves in front of a later
  one only when the comparator is positive for the pair. Written as the insertion of each
  element into the sorted rest, in front of the first element it does not exceed.\<close>

fun insert_by :: "('a \<Rightarrow> 'a \<Rightarrow> int) \<Rightarrow> 'a \<Rightarrow> 'a list \<Rightarrow> 'a list" where
  "insert_by cmp x [] = [x]"
| "insert_by cmp x (y # ys) = (if cmp x y \<le> 0 then x # y # ys else y # insert_by cmp x ys)"

definition array_sort :: "('a \<Rightarrow> 'a \<Rightarrow> int) \<Rightarrow> 'a list \<Rightarrow> 'a list" where
  "array_sort cmp xs = foldr (insert_by cmp) xs []"

text \<open>\<^verbatim>\<open>Array.prototype.slice(start, end)\<close> for non-negative integer arguments.\<close>

definition slice :: "nat \<Rightarrow> nat \<Rightarrow> 'a list \<Rightarrow> 'a list" where
  "slice start end xs = take (end - start) (drop start xs)"

text \<open>Modelled from the spec: the comparators \<^verbatim>\<open>sortTaskUp\<close> and \<^verbatim>\<open>sortTaskDown\<close> of
  \<^verbatim>\<open>utils/task.js\<close> are missing. The specification has them order by due date, ascending
  and descending, with an absent due date placed as the greatest in both directions and two
  absent due dates equal.\<close>

definition getWeightForNullDate :: "int option \<Rightarrow> int option \<Rightarrow> int option" where
  "getWeightForNullDate dateA dateB =
     (case (dateA, dateB) of
        (None, None) \<Rightarrow> Some 0
      | (None, Some _) \<Rightarrow> Some 1
      | (Some _, None) \<Rightarrow> Some (- 1)
      | (Some _, Some _) \<Rightarrow> None)"

definition sortTaskUp :: "task \<Rightarrow> task \<Rightarrow> int" where
  "sortTaskUp taskA taskB =
     (case getWeightForNullDate (dueDate taskA) (dueDate taskB) of
        Some weight \<Rightarrow> weight
      | None \<Rightarrow> the (dueDate taskA) - the (dueDate taskB))"

definition sortTaskDown :: "task \<Rightarrow> task \<Rightarrow> int" where
  "sortTaskDown taskA taskB =
     (case getWeightForNullDate (dueDate taskA) (dueDate taskB) of
        Some weight \<Rightarrow> weight
      | None \<Rightarrow> the (dueDate taskB) - the (dueDate taskA))"

text \<open>Modelled from the spec: the table \<^verbatim>\<open>filter\<close> of \<^verbatim>\<open>utils/filter.js\<close> is missing. The
  specification has each category select the tasks that satisfy the category's predicate;
  the predicates themselves are an external contract, so they are the parameter \<open>fp\<close>.
  The selection builds a new array, as \<^verbatim>\<open>Array.prototype.filter\<close> does, so sorting the
  result leaves the collection as it was.\<close>

definition filter_tbl :: "(filter_type \<Rightarrow> task \<Rightarrow> bool) \<Rightarrow> filter_type \<Rightarrow> task list \<Rightarrow> task list" where
  "filter_tbl fp ft ts = filter (fp ft) ts"

section \<open>The task card view\<close>

text \<open>The imports of the view module that are missing from the source, taken as parameters:
  the escaping function \<^verbatim>\<open>he.encode\<close> of the library \<^verbatim>\<open>he\<close> and the three helpers of
  \<^verbatim>\<open>utils/task.js\<close>.\<close>

record utils =
  he_encode :: "string \<Rightarrow> string"
  humanizeTaskDueDate :: "int option \<Rightarrow> string"
  isTaskExpired :: "int option \<Rightarrow> bool"
  isTaskRepeating :: "(string \<times> bool) list \<Rightarrow> bool"

text \<open>\<^verbatim>\<open>createTaskTemplate\<close>: the template literal, piece by piece, line breaks and
  indentation included.\<close>

definition createTaskTemplate :: \<open>utils \<Rightarrow> task \<Rightarrow> string\<close> where
  \<open>createTaskTemplate u task =
     (let date = humanizeTaskDueDate u (dueDate task);
          deadlineClassName = (if isTaskExpired u (dueDate task) then ''card--deadline'' else []);
          repeatClassName = (if isTaskRepeating u (repeating task) then ''card--repeat'' else []);
          archiveClassName = (if isArchive task
             then ''card__btn--archive card__btn--disabled'' else ''card__btn--archive'');
          favoriteClassName = (if isFavorite task
             then ''card__btn--favorites card__btn--disabled'' else ''card__btn--favorites'')
      in
        ''<article class="card card--'' @
        color task @
        '' '' @
        deadlineClassName @
        '' '' @
        repeatClassName @
        ''">\<newline>'' @
        ''      <div class="card__form">\<newline>'' @
        ''        <div class="card__inner">\<newline>'' @
        ''          <div class="card__control">\<newline>'' @
        ''            <button type="button" class="card__btn card__btn--edit">\<newline>'' @
        ''              edit\<newline>'' @
        ''            </button>\<newline>'' @
        ''            <button type="button" class="card__btn '' @
        archiveClassName @
        ''">\<newline>'' @
        ''              archive\<newline>'' @
        ''            </button>\<newline>'' @
        ''            <button\<newline>'' @
        ''              type="button"\<newline>'' @
        ''              class="card__btn '' @
        favoriteClassName @
        ''"\<newline>'' @
        ''            >\<newline>'' @
        ''              favorites\<newline>'' @
        ''            </button>\<newline>'' @
        ''          </div>\<newline>'' @
        ''\<newline>'' @
        ''          <div class="card__color-bar">\<newline>'' @
        ''            <svg class="card__color-bar-wave" width="100%" height="10">\<newline>'' @
        ''              <use xlink:href="#wave"></use>\<newline>'' @
        ''            </svg>\<newline>'' @
        ''          </div>\<newline>'' @
        ''\<newline>'' @
        ''          <div class="card__textarea-wrap">\<newline>'' @
        ''            <p class="card__text">'' @
        he_encode u (description task) @
        ''</p>\<newline>'' @
        ''          </div>\<newline>'' @
        ''\<newline>'' @
        ''          <div class="card__settings">\<newline>'' @
        ''            <div class="card__details">\<newline>'' @
        ''              <div class="card__dates">\<newline>'' @
        ''                <div class="card__date-deadline">\<newline>'' @
        ''                  <p class="card__input-deadline-wrap">\<newline>'' @
        ''                    <span class="card__date">'' @
        date @
        ''</span>\<newline>'' @
        ''                  </p>\<newline>'' @
        ''                </div>\<newline>'' @
        ''              </div>\<newline>'' @
        ''            </div>\<newline>'' @
        ''          </div>\<newline>'' @
        ''        </div>\<newline>'' @
        ''      </div>\<newline>'' @
        ''    </article>'')\<close>

section \<open>The board presenter\<close>

text \<open>Modelled from the spec: the item presenter (\<^verbatim>\<open>TaskPresenter\<close>) is missing. It owns the
  rendered form of one task and a view state; \<^verbatim>\<open>init\<close> shows the task in the idle state,
  \<^verbatim>\<open>setSaving\<close>, \<^verbatim>\<open>setDeleting\<close> and \<^verbatim>\<open>setAborting\<close> enter the state of their name,
  \<^verbatim>\<open>resetView\<close> closes an open editor, and the error affordance of the aborting state
  ends by itself in the idle state.\<close>

datatype view_state = Idle | Editing | Saving | Deleting | Aborting

record item_controller =
  shown :: "task option"
  view_state :: view_state

definition TaskPresenter :: item_controller where
  "TaskPresenter = \<lparr>shown = None, view_state = Idle\<rparr>"

definition TaskPresenter_init :: "task \<Rightarrow> item_controller \<Rightarrow> item_controller" where
  "TaskPresenter_init t p = p\<lparr>shown := Some t, view_state := Idle\<rparr>"

definition setSaving :: "item_controller \<Rightarrow> item_controller" where
  "setSaving p = p\<lparr>view_state := Saving\<rparr>"

definition setDeleting :: "item_controller \<Rightarrow> item_controller" where
  "setDeleting p = p\<lparr>view_state := Deleting\<rparr>"

definition setAborting :: "item_controller \<Rightarrow> item_controller" where
  "setAborting p = p\<lparr>view_state := Aborting\<rparr>"

definition resetView :: "item_controller \<Rightarrow> item_controller" where
  "resetView p = (if view_state p = Editing then p\<lparr>view_state := Idle\<rparr> else p)"



text \<open>Modelled from the spec: the creation presenter (\<^verbatim>\<open>TaskNewPresenter\<close>) is missing. Its
  form is inactive, active, saving or aborting; \<^verbatim>\<open>init\<close> shows the form, \<^verbatim>\<open>destroy\<close>
  removes it, and the error affordance of the aborting state ends by itself in the active
  state, the form retained.\<close>

datatype creation_state = Inactive | Active | NewSaving | NewAborting



text \<open>What the presenter asks of its collaborators, in the order it asks: the UI blocker,
  the task collection model and the filter model.\<close>

datatype effect =
    Block
  | Unblock
  | ModelCall user_action update_type task
  | FilterCall update_type filter_type

text \<open>What a call can throw: the \<^verbatim>\<open>TypeError\<close> of a method call on \<^verbatim>\<open>undefined\<close>, and the
  error a rejected model operation carries.\<close>

datatype error = TypeError | ModelError

text \<open>The second argument of a model notification: a task, a filter category, or nothing.\<close>

datatype payload = TaskData task | FilterData filter_type | NoData

text \<open>Modelled from the spec: the task collection model is missing. Its operations are
  asynchronous and backed by a remote source, which decides their outcome: the operation
  rejects and the collection stays as it is, or it succeeds, the collection has its new
  contents and the observers are notified with the requested update kind and a payload.\<close>

datatype outcome = Rejects | Resolves "task list" payload

text \<open>Modelled from the spec: while the presenter waits for an operation, control is with the
  event loop, and either model may notify its observers: the filter model after it was set to
  a category, the task collection model after another mutation gave it new contents.\<close>

datatype notification =
    FilterNotice update_type filter_type
  | TasksNotice "task list" update_type payload

text \<open>The private fields of \<^verbatim>\<open>BoardPresenter\<close>. The two models are their current contents;
  a view component is what it shows while it is in the document and \<open>None\<close>/\<open>False\<close>
  otherwise; \<^verbatim>\<open>#taskPresenter\<close> is the \<^verbatim>\<open>Map\<close> in insertion order. The last field is
  not one of the class: it records the calls made on the collaborators, in order.\<close>

record board =
  tasksModel :: "task list"
  filterModel :: filter_type
  boardComponent :: bool
  taskListComponent :: bool
  loadingComponent :: bool
  noTaskComponent :: "filter_type option"
  sortComponent :: "sort_type option"
  loadMoreButtonComponent :: bool
  renderedTaskCount :: nat
  taskPresenter :: "(task_id \<times> item_controller) list"
  taskNewPresenter :: creation_state
  currentSortType :: sort_type
  filterType :: filter_type
  isLoading :: bool
  calls :: "effect list"

text \<open>A call either completes or throws; the fields keep what was written before the throw.\<close>

type_synonym completion = "error option \<times> board"

definition bind :: "completion \<Rightarrow> (board \<Rightarrow> completion) \<Rightarrow> completion" where
  "bind r f = (case r of (None, b) \<Rightarrow> f b | (Some e, b) \<Rightarrow> (Some e, b))"

definition try_catch :: "completion \<Rightarrow> (board \<Rightarrow> completion) \<Rightarrow> completion" where
  "try_catch r handler = (case r of (None, b) \<Rightarrow> (None, b) | (Some e, b) \<Rightarrow> handler b)"

text \<open>The field initialisers and the constructor.\<close>

definition BoardPresenter :: "task list \<Rightarrow> filter_type \<Rightarrow> board" where
  "BoardPresenter ts f =
     \<lparr>tasksModel = ts, filterModel = f,
      boardComponent = False, taskListComponent = False, loadingComponent = False,
      noTaskComponent = None, sortComponent = None, loadMoreButtonComponent = False,
      renderedTaskCount = TASK_COUNT_PER_STEP, taskPresenter = [], taskNewPresenter = Inactive,
      currentSortType = DEFAULT, filterType = FilterType_ALL, isLoading = True, calls = []\<rparr>"

text \<open>The getter \<^verbatim>\<open>tasks\<close>: it stores the active category in \<^verbatim>\<open>#filterType\<close> and returns
  the filtered collection, sorted when a date sort is active.\<close>

definition tasks_get :: "(filter_type \<Rightarrow> task \<Rightarrow> bool) \<Rightarrow> board \<Rightarrow> task list \<times> board" where
  "tasks_get fp b =
     (let b1 = b\<lparr>filterType := filterModel b\<rparr>;
          ts = tasksModel b1;
          filteredTasks = filter_tbl fp (filterType b1) ts
      in (case currentSortType b1 of
            DATE_UP \<Rightarrow> array_sort sortTaskUp filteredTasks
          | DATE_DOWN \<Rightarrow> array_sort sortTaskDown filteredTasks
          | DEFAULT \<Rightarrow> filteredTasks,
          b1))"

definition tasks :: "(filter_type \<Rightarrow> task \<Rightarrow> bool) \<Rightarrow> board \<Rightarrow> task list" where
  "tasks fp b = fst (tasks_get fp b)"

text \<open>\<^verbatim>\<open>this.#taskPresenter.get(id).method()\<close>: the call throws when the map has no
  presenter for the id; otherwise the presenter found changes in place.\<close>

definition call_presenter :: "task_id \<Rightarrow> (item_controller \<Rightarrow> item_controller) \<Rightarrow> board \<Rightarrow> completion" where
  "call_presenter i method b =
     (case map_of (taskPresenter b) i of
        None \<Rightarrow> (Some TypeError, b)
      | Some p \<Rightarrow> (None, b\<lparr>taskPresenter := AList.update i (method p) (taskPresenter b)\<rparr>))"

definition uiBlocker_block :: "board \<Rightarrow> completion" where
  "uiBlocker_block b = (None, b\<lparr>calls := calls b @ [Block]\<rparr>)"

definition uiBlocker_unblock :: "board \<Rightarrow> completion" where
  "uiBlocker_unblock b = (None, b\<lparr>calls := calls b @ [Unblock]\<rparr>)"

definition taskNewPresenter_init :: "board \<Rightarrow> completion" where
  "taskNewPresenter_init b = (None, b\<lparr>taskNewPresenter := Active\<rparr>)"

definition taskNewPresenter_destroy :: "board \<Rightarrow> board" where
  "taskNewPresenter_destroy b = b\<lparr>taskNewPresenter := Inactive\<rparr>"

definition taskNewPresenter_setSaving :: "board \<Rightarrow> completion" where
  "taskNewPresenter_setSaving b = (None, b\<lparr>taskNewPresenter := NewSaving\<rparr>)"

definition taskNewPresenter_setAborting :: "board \<Rightarrow> completion" where
  "taskNewPresenter_setAborting b = (None, b\<lparr>taskNewPresenter := NewAborting\<rparr>)"

definition renderTask :: "task \<Rightarrow> board \<Rightarrow> board" where
  "renderTask t b =
     (let taskPresenter' = TaskPresenter_init t TaskPresenter
      in b\<lparr>taskPresenter := AList.update (id_task t) taskPresenter' (taskPresenter b)\<rparr>)"

definition renderTasks :: "task list \<Rightarrow> board \<Rightarrow> board" where
  "renderTasks ts b = foldl (\<lambda>b t. renderTask t b) b ts"

definition handleLoadMoreButtonClick :: "(filter_type \<Rightarrow> task \<Rightarrow> bool) \<Rightarrow> board \<Rightarrow> board" where
  "handleLoadMoreButtonClick fp b =
     (let (ts1, b1) = tasks_get fp b;
          taskCount = length ts1;
          newRenderedTaskCount = min taskCount (renderedTaskCount b1 + TASK_COUNT_PER_STEP);
          (ts2, b2) = tasks_get fp b1;
          ts = slice (renderedTaskCount b2) newRenderedTaskCount ts2;
          b3 = renderTasks ts b2;
          b4 = b3\<lparr>renderedTaskCount := newRenderedTaskCount\<rparr>
      in if renderedTaskCount b4 \<ge> taskCount then b4\<lparr>loadMoreButtonComponent := False\<rparr> else b4)"

definition handleModeChange :: "board \<Rightarrow> board" where
  "handleModeChange b =
     (let b1 = taskNewPresenter_destroy b
      in b1\<lparr>taskPresenter := map (\<lambda>(i, p). (i, resetView p)) (taskPresenter b1)\<rparr>)"

definition clearBoard :: "(filter_type \<Rightarrow> task \<Rightarrow> bool) \<Rightarrow> bool \<Rightarrow> bool \<Rightarrow> board \<Rightarrow> board" where
  "clearBoard fp resetRenderedTaskCount resetSortType b =
     (let (ts, b1) = tasks_get fp b;
          taskCount = length ts;
          b2 = taskNewPresenter_destroy b1;
          b3 = b2\<lparr>taskPresenter := []\<rparr>;
          b4 = b3\<lparr>sortComponent := None, loadingComponent := False,
                  loadMoreButtonComponent := False\<rparr>;
          b5 = (if noTaskComponent b4 \<noteq> None then b4\<lparr>noTaskComponent := None\<rparr> else b4);
          b6 = (if resetRenderedTaskCount
                then b5\<lparr>renderedTaskCount := TASK_COUNT_PER_STEP\<rparr>
                else b5\<lparr>renderedTaskCount := min taskCount (renderedTaskCount b5)\<rparr>)
      in if resetSortType then b6\<lparr>currentSortType := DEFAULT\<rparr> else b6)"

definition renderBoard :: "(filter_type \<Rightarrow> task \<Rightarrow> bool) \<Rightarrow> board \<Rightarrow> board" where
  "renderBoard fp b =
     (let b1 = b\<lparr>boardComponent := True\<rparr>
      in if isLoading b1 then b1\<lparr>loadingComponent := True\<rparr>
         else
           let (ts, b2) = tasks_get fp b1;
               taskCount = length ts
           in if taskCount = 0 then b2\<lparr>noTaskComponent := Some (filterType b2)\<rparr>
              else
                let b3 = b2\<lparr>sortComponent := Some (currentSortType b2)\<rparr>;
                    b4 = b3\<lparr>taskListComponent := True\<rparr>;
                    b5 = renderTasks (slice 0 (min taskCount (renderedTaskCount b4)) ts) b4
                in if taskCount > renderedTaskCount b5
                   then b5\<lparr>loadMoreButtonComponent := True\<rparr> else b5)"

definition init :: "(filter_type \<Rightarrow> task \<Rightarrow> bool) \<Rightarrow> board \<Rightarrow> board" where
  "init fp b = renderBoard fp b"

definition handleModelEvent ::
    "(filter_type \<Rightarrow> task \<Rightarrow> bool) \<Rightarrow> update_type \<Rightarrow> payload \<Rightarrow> board \<Rightarrow> completion" where
  "handleModelEvent fp updateType data b =
     (case updateType of
        PATCH \<Rightarrow>
          (case data of
             TaskData t \<Rightarrow> call_presenter (id_task t) (TaskPresenter_init t) b
           | FilterData _ \<Rightarrow> (Some TypeError, b)
           | NoData \<Rightarrow> (Some TypeError, b))
      | MINOR \<Rightarrow> (None, renderBoard fp (clearBoard fp False False b))
      | MAJOR \<Rightarrow> (None, renderBoard fp (clearBoard fp True True b))
      | INIT \<Rightarrow> (None, renderBoard fp (b\<lparr>isLoading := False, loadingComponent := False\<rparr>)))"

definition handleSortTypeChange :: "(filter_type \<Rightarrow> task \<Rightarrow> bool) \<Rightarrow> sort_type \<Rightarrow> board \<Rightarrow> board" where
  "handleSortTypeChange fp sortType b =
     (if currentSortType b = sortType then b
      else renderBoard fp (clearBoard fp True False (b\<lparr>currentSortType := sortType\<rparr>)))"

text \<open>Modelled from the spec: a notification that arrives from a model. The model has its new
  state and calls the presenter's observer; an observer that throws does so on the notifying
  model's stack and has changed nothing.\<close>

definition deliver :: "(filter_type \<Rightarrow> task \<Rightarrow> bool) \<Rightarrow> notification \<Rightarrow> board \<Rightarrow> board" where
  "deliver fp n b =
     (case n of
        FilterNotice updateType f \<Rightarrow>
          snd (handleModelEvent fp updateType (FilterData f) (b\<lparr>filterModel := f\<rparr>))
      | TasksNotice ts updateType data \<Rightarrow>
          snd (handleModelEvent fp updateType data (b\<lparr>tasksModel := ts\<rparr>)))"

definition in_flight :: "(filter_type \<Rightarrow> task \<Rightarrow> bool) \<Rightarrow> notification list \<Rightarrow> board \<Rightarrow> board" where
  "in_flight fp during b = foldl (\<lambda>b n. deliver fp n b) b during"

text \<open>Modelled from the spec: an operation of the task collection model (\<^verbatim>\<open>updateTask\<close>,
  \<^verbatim>\<open>addTask\<close>, \<^verbatim>\<open>deleteTask\<close>), awaited. The presenter is suspended at the \<^verbatim>\<open>await\<close>
  while the notifications \<open>during\<close> arrive and are handled; then the operation settles. A
  rejection throws at the \<^verbatim>\<open>await\<close>; a success notifies the presenter's observer before
  control returns. An observer that throws makes the operation reject, as in an asynchronous
  method that notifies before it returns.\<close>

definition tasksModel_call ::
    "(filter_type \<Rightarrow> task \<Rightarrow> bool) \<Rightarrow> user_action \<Rightarrow> update_type \<Rightarrow> task \<Rightarrow>
      notification list \<Rightarrow> outcome \<Rightarrow> board \<Rightarrow> completion" where
  "tasksModel_call fp actionType updateType update during out b =
     (let b1 = b\<lparr>calls := calls b @ [ModelCall actionType updateType update]\<rparr>;
          b2 = in_flight fp during b1
      in case out of
           Rejects \<Rightarrow> (Some ModelError, b2)
         | Resolves ts data \<Rightarrow> handleModelEvent fp updateType data (b2\<lparr>tasksModel := ts\<rparr>))"

text \<open>Modelled from the spec: \<^verbatim>\<open>setFilter\<close> of the filter model, which is missing. It stores
  the category and notifies the observers with the update kind and the category.\<close>

definition filterModel_setFilter ::
    "(filter_type \<Rightarrow> task \<Rightarrow> bool) \<Rightarrow> update_type \<Rightarrow> filter_type \<Rightarrow> board \<Rightarrow> completion" where
  "filterModel_setFilter fp updateType f b =
     handleModelEvent fp updateType (FilterData f)
       (b\<lparr>filterModel := f, calls := calls b @ [FilterCall updateType f]\<rparr>)"

definition createTask :: "(filter_type \<Rightarrow> task \<Rightarrow> bool) \<Rightarrow> board \<Rightarrow> completion" where
  "createTask fp b =
     (let b1 = b\<lparr>currentSortType := DEFAULT\<rparr>
      in bind (filterModel_setFilter fp MAJOR FilterType_ALL b1) taskNewPresenter_init)"

text \<open>\<^verbatim>\<open>#handleViewAction\<close>. What happens while the model operation is awaited and how the
  operation settles are the arguments \<open>during\<close> and \<open>out\<close>.\<close>

definition handleViewAction ::
    "(filter_type \<Rightarrow> task \<Rightarrow> bool) \<Rightarrow> user_action \<Rightarrow> update_type \<Rightarrow> task \<Rightarrow>
      notification list \<Rightarrow> outcome \<Rightarrow> board \<Rightarrow> completion" where
  "handleViewAction fp actionType updateType update during out b =
     bind (uiBlocker_block b) (\<lambda>b.
       bind
         (case actionType of
            UPDATE_TASK \<Rightarrow>
              bind (call_presenter (id_task update) setSaving b) (\<lambda>b.
                try_catch (tasksModel_call fp UPDATE_TASK updateType update during out b)
                  (call_presenter (id_task update) setAborting))
          | ADD_TASK \<Rightarrow>
              bind (taskNewPresenter_setSaving b) (\<lambda>b.
                try_catch (tasksModel_call fp ADD_TASK updateType update during out b)
                  taskNewPresenter_setAborting)
          | DELETE_TASK \<Rightarrow>
              bind (call_presenter (id_task update) setDeleting b) (\<lambda>b.
                try_catch (tasksModel_call fp DELETE_TASK updateType update during out b)
                  (call_presenter (id_task update) setAborting)))
         uiBlocker_unblock)"

section \<open>The derived sequence as the specification words it\<close>

text \<open>The sort keys of the specification: a task without a due date comes after every task
  with one, in both directions; among dated tasks the date decides, ascending or descending.\<close>

definition due_key_up :: "task \<Rightarrow> bool \<times> int" where
  "due_key_up t = (case dueDate t of None \<Rightarrow> (True, 0) | Some d \<Rightarrow> (False, d))"

definition due_key_down :: "task \<Rightarrow> bool \<times> int" where
  "due_key_down t = (case dueDate t of None \<Rightarrow> (True, 0) | Some d \<Rightarrow> (False, - d))"

definition apply_sort_spec :: "sort_type \<Rightarrow> task list \<Rightarrow> task list" where
  "apply_sort_spec m ts =
     (case m of
        DEFAULT \<Rightarrow> ts
      | DATE_UP \<Rightarrow> sort_key due_key_up ts
      | DATE_DOWN \<Rightarrow> sort_key due_key_down ts)"

definition derived_spec :: "(task \<Rightarrow> bool) \<Rightarrow> sort_type \<Rightarrow> task list \<Rightarrow> task list" where
  "derived_spec p m ts = apply_sort_spec m (filter p ts)"

text \<open>The same keys, of a due date alone.\<close>

definition date_key_up :: "int option \<Rightarrow> bool \<times> int" where
  "date_key_up k = (case k of None \<Rightarrow> (True, 0) | Some d \<Rightarrow> (False, d))"

definition date_key_down :: "int option \<Rightarrow> bool \<times> int" where
  "date_key_down k = (case k of None \<Rightarrow> (True, 0) | Some d \<Rightarrow> (False, - d))"

section \<open>Auxiliary notions for the statements\<close>

text \<open>The presenter map after \<^verbatim>\<open>Map.set\<close> of a fresh, initialised item presenter for each
  task of a list, in order: what \<^verbatim>\<open>#renderTasks\<close> makes of the map.\<close>

definition presenters_for :: "task list \<Rightarrow> (task_id \<times> item_controller) list \<Rightarrow> (task_id \<times> item_controller) list" where
  "presenters_for ts m = foldl (\<lambda>m t. AList.update (id_task t) (TaskPresenter_init t TaskPresenter) m) m ts"

text \<open>The map entry of a task just rendered.\<close>

definition fresh_presenter :: "task \<Rightarrow> task_id \<times> item_controller" where
  "fresh_presenter t = (id_task t, \<lparr>shown = Some t, view_state = Idle\<rparr>)"



section \<open>Example data\<close>

definition example_task :: "task_id \<Rightarrow> int option \<Rightarrow> bool \<Rightarrow> bool \<Rightarrow> task" where
  "example_task i d a f =
     \<lparr>id_task = i, color = ''black'', description = ''x'', dueDate = d, repeating = [],
      isArchive = a, isFavorite = f\<rparr>"

text \<open>One possible table of category predicates, for the examples only.\<close>

definition example_filter :: "filter_type \<Rightarrow> task \<Rightarrow> bool" where
  "example_filter ft t =
     (case ft of
        FilterType_FAVORITES \<Rightarrow> isFavorite t \<and> \<not> isArchive t
      | FilterType_ARCHIVE \<Rightarrow> isArchive t
      | _ \<Rightarrow> \<not> isArchive t)"

definition example_dates :: "task list" where
  "example_dates = [example_task 1 None False False, example_task 2 (Some 5) False False,
     example_task 3 None False False, example_task 4 (Some 3) False False,
     example_task 5 (Some 5) False True]"

definition example_ten :: "task list" where
  "example_ten = map (\<lambda>i. example_task i None False False) [1, 2, 3, 4, 5, 6, 7, 8, 9, 10]"

text \<open>A board that was constructed on the five example tasks, initialised and then told that
  loading has finished; and the same for ten tasks.\<close>

definition example_board :: board where
  "example_board =
     snd (handleModelEvent example_filter INIT NoData
       (init example_filter (BoardPresenter example_dates FilterType_ALL)))"

definition example_ten_board :: board where
  "example_ten_board =
     snd (handleModelEvent example_filter INIT NoData
       (init example_filter (BoardPresenter example_ten FilterType_ALL)))"

section \<open>Sorting lemmas\<close>

lemma insert_by_insort_key:
  assumes "\<And>x y. cmp x y \<le> 0 \<longleftrightarrow> f x \<le> f y"
  shows "insert_by cmp x ys = insort_key f x ys"
  by (induction ys) (simp_all add: assms)

lemma array_sort_sort_key:
  assumes "\<And>x y. cmp x y \<le> 0 \<longleftrightarrow> f x \<le> f y"
  shows "array_sort cmp xs = sort_key f xs"
  unfolding array_sort_def
  by (induction xs) (simp_all add: insert_by_insort_key [OF assms])

lemma sortTaskUp_key: "sortTaskUp x y \<le> 0 \<longleftrightarrow> due_key_up x \<le> due_key_up y"
  by (cases "dueDate x"; cases "dueDate y")
     (simp_all add: sortTaskUp_def getWeightForNullDate_def due_key_up_def)

lemma sortTaskDown_key: "sortTaskDown x y \<le> 0 \<longleftrightarrow> due_key_down x \<le> due_key_down y"
  by (cases "dueDate x"; cases "dueDate y")
     (simp_all add: sortTaskDown_def getWeightForNullDate_def due_key_down_def)

lemma array_sort_up: "array_sort sortTaskUp xs = sort_key due_key_up xs"
  by (rule array_sort_sort_key) (rule sortTaskUp_key)

lemma array_sort_down: "array_sort sortTaskDown xs = sort_key due_key_down xs"
  by (rule array_sort_sort_key) (rule sortTaskDown_key)

lemma tasks_unfold:
  "tasks fp b =
     (case currentSortType b of
        DATE_UP \<Rightarrow> array_sort sortTaskUp (filter (fp (filterModel b)) (tasksModel b))
      | DATE_DOWN \<Rightarrow> array_sort sortTaskDown (filter (fp (filterModel b)) (tasksModel b))
      | DEFAULT \<Rightarrow> filter (fp (filterModel b)) (tasksModel b))"
  by (cases "currentSortType b") (simp_all add: tasks_def tasks_get_def filter_tbl_def Let_def)

lemma tasks_derived_spec:
  "tasks fp b = derived_spec (fp (filterModel b)) (currentSortType b) (tasksModel b)"
  by (cases "currentSortType b")
     (simp_all add: tasks_unfold derived_spec_def apply_sort_spec_def array_sort_up array_sort_down)

text \<open>A list sorted by a key whose first component is a flag has the unflagged elements
  first.\<close>

lemma sorted_flag_split:
  fixes f :: "'a \<Rightarrow> bool \<times> int"
  assumes "sorted (map f xs)"
  shows "xs = filter (\<lambda>x. \<not> fst (f x)) xs @ filter (\<lambda>x. fst (f x)) xs"
  using assms
proof (induction xs)
  case Nil
  then show ?case by simp
next
  case (Cons x xs)
  then have tl: "xs = filter (\<lambda>x. \<not> fst (f x)) xs @ filter (\<lambda>x. fst (f x)) xs"
    by simp
  show ?case
  proof (cases "fst (f x)")
    case False
    then show ?thesis using tl by simp
  next
    case True
    have "\<forall>y\<in>set xs. fst (f y)"
    proof
      fix y assume "y \<in> set xs"
      with Cons.prems have "f x \<le> f y" by simp
      with True show "fst (f y)"
        by (cases "f x"; cases "f y") (auto simp: less_eq_prod_def)
    qed
    then have "filter (\<lambda>x. \<not> fst (f x)) xs = []" "filter (\<lambda>x. fst (f x)) xs = xs"
      by (simp_all add: filter_empty_conv filter_id_conv)
    with True show ?thesis by simp
  qed
qed

lemma fst_due_key_up: "fst (due_key_up t) \<longleftrightarrow> dueDate t = None"
  by (simp add: due_key_up_def split: option.splits)

lemma fst_due_key_down: "fst (due_key_down t) \<longleftrightarrow> dueDate t = None"
  by (simp add: due_key_down_def split: option.splits)

lemma due_key_up_eq: "due_key_up t = date_key_up k \<longleftrightarrow> dueDate t = k"
  by (cases "dueDate t"; cases k) (simp_all add: due_key_up_def date_key_up_def)

lemma due_key_down_eq: "due_key_down t = date_key_down k \<longleftrightarrow> dueDate t = k"
  by (cases "dueDate t"; cases k) (simp_all add: due_key_down_def date_key_down_def)

lemma sort_key_dated_first:
  fixes f :: "task \<Rightarrow> bool \<times> int"
  assumes "\<And>t. fst (f t) \<longleftrightarrow> dueDate t = None"
  shows "sort_key f xs =
    filter (\<lambda>t. dueDate t \<noteq> None) (sort_key f xs) @ filter (\<lambda>t. dueDate t = None) (sort_key f xs)"
  using sorted_flag_split [of f "sort_key f xs"] by (simp add: assms)

lemma sort_key_same_date:
  fixes f :: "task \<Rightarrow> bool \<times> int"
  assumes "\<And>t. f t = kv \<longleftrightarrow> dueDate t = k"
  shows "filter (\<lambda>t. dueDate t = k) (sort_key f xs) = filter (\<lambda>t. dueDate t = k) xs"
  using sort_key_stable [of f kv xs] by (simp add: assms)

section \<open>The operations in closed form\<close>

lemma tasks_get_eq: "tasks_get fp b = (tasks fp b, b\<lparr>filterType := filterModel b\<rparr>)"
  by (simp add: tasks_def tasks_get_def Let_def)

lemma length_tasks: "length (tasks fp b) = length (filter (fp (filterModel b)) (tasksModel b))"
  by (cases "currentSortType b") (simp_all add: tasks_unfold array_sort_up array_sort_down)

lemma renderTasks_eq: "renderTasks ts b = b\<lparr>taskPresenter := presenters_for ts (taskPresenter b)\<rparr>"
  unfolding renderTasks_def presenters_for_def
  by (induction ts arbitrary: b) (simp_all add: renderTask_def)

lemma clearBoard_eq:
  "clearBoard fp r s b =
     b\<lparr>filterType := filterModel b, taskNewPresenter := Inactive, taskPresenter := [],
       sortComponent := None, loadingComponent := False, loadMoreButtonComponent := False,
       noTaskComponent := None,
       renderedTaskCount := (if r then TASK_COUNT_PER_STEP else min (length (tasks fp b)) (renderedTaskCount b)),
       currentSortType := (if s then DEFAULT else currentSortType b)\<rparr>"
  by (simp add: clearBoard_def tasks_get_eq taskNewPresenter_destroy_def Let_def)

lemma slice_0_min: "slice 0 (min (length xs) n) xs = take n xs"
  by (simp add: slice_def min_def)

lemma renderBoard_loading:
  "isLoading b \<Longrightarrow> renderBoard fp b = b\<lparr>boardComponent := True, loadingComponent := True\<rparr>"
  by (simp add: renderBoard_def)

lemma renderBoard_empty:
  "\<not> isLoading b \<Longrightarrow> tasks fp b = [] \<Longrightarrow>
   renderBoard fp b =
     b\<lparr>boardComponent := True, filterType := filterModel b, noTaskComponent := Some (filterModel b)\<rparr>"
  by (simp add: renderBoard_def tasks_get_eq tasks_derived_spec)

lemma renderBoard_tasks:
  "\<not> isLoading b \<Longrightarrow> tasks fp b \<noteq> [] \<Longrightarrow>
   renderBoard fp b =
        b\<lparr>boardComponent := True, filterType := filterModel b,
          sortComponent := Some (currentSortType b), taskListComponent := True,
          taskPresenter := presenters_for (take (renderedTaskCount b) (tasks fp b)) (taskPresenter b),
          loadMoreButtonComponent := (loadMoreButtonComponent b \<or> length (tasks fp b) > renderedTaskCount b)\<rparr>"
  by (cases "renderedTaskCount b < length (tasks fp b)")
     (simp_all add: renderBoard_def tasks_get_eq tasks_derived_spec renderTasks_eq slice_0_min Let_def)

lemma handleLoadMoreButtonClick_eq:
  "handleLoadMoreButtonClick fp b =
     b\<lparr>filterType := filterModel b,
       taskPresenter := presenters_for
          (slice (renderedTaskCount b) (min (length (tasks fp b)) (renderedTaskCount b + TASK_COUNT_PER_STEP)) (tasks fp b))
          (taskPresenter b),
       renderedTaskCount := min (length (tasks fp b)) (renderedTaskCount b + TASK_COUNT_PER_STEP),
       loadMoreButtonComponent := (loadMoreButtonComponent b \<and>
          min (length (tasks fp b)) (renderedTaskCount b + TASK_COUNT_PER_STEP) < length (tasks fp b))\<rparr>"
  by (cases "min (length (tasks fp b)) (renderedTaskCount b + TASK_COUNT_PER_STEP) < length (tasks fp b)")
     (simp_all add: handleLoadMoreButtonClick_def tasks_get_eq tasks_derived_spec renderTasks_eq Let_def not_less)

lemma renderBoard_calls [simp]: "calls (renderBoard fp b) = calls b"
  by (cases "isLoading b"; cases "tasks fp b = []")
     (simp_all add: renderBoard_loading renderBoard_empty renderBoard_tasks)

lemma renderBoard_tasksModel [simp]: "tasksModel (renderBoard fp b) = tasksModel b"
  by (cases "isLoading b"; cases "tasks fp b = []")
     (simp_all add: renderBoard_loading renderBoard_empty renderBoard_tasks)

lemma renderBoard_keeps:
  "currentSortType (renderBoard fp b) = currentSortType b"
  "filterModel (renderBoard fp b) = filterModel b"
  "taskNewPresenter (renderBoard fp b) = taskNewPresenter b"
  "renderedTaskCount (renderBoard fp b) = renderedTaskCount b"
  "isLoading (renderBoard fp b) = isLoading b"
  by (cases "isLoading b"; cases "tasks fp b = []";
      simp add: renderBoard_loading renderBoard_empty renderBoard_tasks)+

lemma renderBoard_filterType:
  "filterType b = filterModel b \<Longrightarrow> filterType (renderBoard fp b) = filterModel b"
  by (cases "isLoading b"; cases "tasks fp b = []";
      simp add: renderBoard_loading renderBoard_empty renderBoard_tasks)

lemma tasks_renderBoard: "tasks fp (renderBoard fp b) = tasks fp b"
  by (simp add: tasks_derived_spec renderBoard_keeps)

lemma tasks_handleLoadMore: "tasks fp (handleLoadMoreButtonClick fp b) = tasks fp b"
  by (simp add: tasks_derived_spec handleLoadMoreButtonClick_eq)



lemma handleModelEvent_throw:
  "handleModelEvent fp ut d b = (Some e, b') \<Longrightarrow> b' = b"
  by (cases ut; cases d)
     (auto simp: handleModelEvent_def call_presenter_def split: option.splits)

lemma handleModelEvent_done:
  "handleModelEvent fp ut d b = (None, b') \<Longrightarrow> calls b' = calls b \<and> tasksModel b' = tasksModel b"
  by (cases ut; cases d)
     (auto simp: handleModelEvent_def call_presenter_def clearBoard_eq split: option.splits)

lemma update_fresh: "k \<notin> fst ` set m \<Longrightarrow> AList.update k v m = m @ [(k, v)]"
  by (induction m) auto

lemma presenters_for_distinct:
  "distinct (map id_task ts) \<Longrightarrow> id_task ` set ts \<inter> fst ` set m = {} \<Longrightarrow>
   presenters_for ts m = m @ map fresh_presenter ts"
proof (induction ts arbitrary: m)
  case Nil
  then show ?case by (simp add: presenters_for_def)
next
  case (Cons t ts)
  from Cons.prems have fresh: "id_task t \<notin> fst ` set m" by auto
  have step: "presenters_for (t # ts) m =
      presenters_for ts (m @ [(id_task t, TaskPresenter_init t TaskPresenter)])"
    by (simp add: presenters_for_def update_fresh [OF fresh])
  from Cons.prems
  have "id_task ` set ts \<inter> fst ` set (m @ [(id_task t, TaskPresenter_init t TaskPresenter)]) = {}"
    by auto
  with Cons.IH [of "m @ [(id_task t, TaskPresenter_init t TaskPresenter)]"] Cons.prems step
  show ?case
    by (simp add: fresh_presenter_def TaskPresenter_init_def TaskPresenter_def)
qed

lemma length_update_le: "length (AList.update k v m) \<le> Suc (length m)"
  by (induction m) auto

lemma length_presenters_for: "length (presenters_for ts m) \<le> length m + length ts"
proof (induction ts arbitrary: m)
  case Nil
  then show ?case by (simp add: presenters_for_def)
next
  case (Cons t ts)
  have "presenters_for (t # ts) m =
      presenters_for ts (AList.update (id_task t) (TaskPresenter_init t TaskPresenter) m)"
    by (simp add: presenters_for_def)
  with Cons.IH [of "AList.update (id_task t) (TaskPresenter_init t TaskPresenter) m"]
    length_update_le [of "id_task t" "TaskPresenter_init t TaskPresenter" m]
  show ?case by simp
qed

lemma take_slice: "m \<le> n \<Longrightarrow> take n xs = take m xs @ slice m n xs"
proof -
  assume "m \<le> n"
  then have "take n xs = take (m + (n - m)) xs" by simp
  also have "\<dots> = take m xs @ take (n - m) (drop m xs)" by (rule take_add)
  finally show ?thesis by (simp add: slice_def)
qed

lemma outside_encode_base:
  "\<exists>pre post. \<forall>d. (e d @ rest :: string) = pre @ e d @ post"
proof -
  have "\<forall>d. e d @ rest = [] @ e d @ rest" by simp
  then show ?thesis by blast
qed

lemma outside_encode_step:
  assumes "\<exists>pre post. \<forall>d. (g d :: string) = pre @ e d @ post"
  shows "\<exists>pre post. \<forall>d. s @ g d = pre @ e d @ post"
proof -
  from assms obtain pre post where "\<forall>d. g d = pre @ e d @ post" by blast
  then have "\<forall>d. s @ g d = (s @ pre) @ e d @ post" by simp
  then show ?thesis by blast
qed

lemma task_fields_without_description:
  "color (task\<lparr>description := d\<rparr>) = color task"
  "dueDate (task\<lparr>description := d\<rparr>) = dueDate task"
  "repeating (task\<lparr>description := d\<rparr>) = repeating task"
  "isArchive (task\<lparr>description := d\<rparr>) = isArchive task"
  "isFavorite (task\<lparr>description := d\<rparr>) = isFavorite task"
  "description (task\<lparr>description := d\<rparr>) = d"
  by simp_all

section \<open>Boards that differ in recorded calls and stored presenters only\<close>

















lemma handleModelEvent_calls [simp]: "calls (snd (handleModelEvent fp ut d b)) = calls b"
proof (cases "handleModelEvent fp ut d b")
  case (Pair e b')
  then show ?thesis
    by (cases e) (auto dest: handleModelEvent_throw handleModelEvent_done)
qed

lemma handleModelEvent_tasksModel [simp]: "tasksModel (snd (handleModelEvent fp ut d b)) = tasksModel b"
proof (cases "handleModelEvent fp ut d b")
  case (Pair e b')
  then show ?thesis
    by (cases e) (auto dest: handleModelEvent_throw handleModelEvent_done)
qed

lemma deliver_calls [simp]: "calls (deliver fp n b) = calls b"
  by (cases n) (simp_all add: deliver_def)


lemma in_flight_calls [simp]: "calls (in_flight fp ns b) = calls b"
  unfolding in_flight_def by (induction ns arbitrary: b) simp_all











lemma take_min_length: "take (min (length xs) n) xs = take n xs"
  by (simp add: min_def)

lemma presenters_for_fresh:
  "distinct (map id_task ts) \<Longrightarrow> presenters_for ts [] = map fresh_presenter ts"
  using presenters_for_distinct [of ts "[]"] by simp

section \<open>Claims about the derived sequence\<close>

text \<open>
  C1. For every collection, filter category and sort mode, the sequence the \<^verbatim>\<open>tasks\<close> getter
  returns is the collection filtered by the active category's predicate and then put in the
  active sort mode's order (stable sort by due date, absent dates last); in the default mode
  it is the filtered collection in collection order. The filtered sequence holds exactly the
  tasks of the collection that satisfy the predicate, as often and in the order the collection
  has them.
\<close>

theorem tasks_filter_then_sort:
  "tasks fp b = derived_spec (fp (filterModel b)) (currentSortType b) (tasksModel b)
   \<and> tasks fp b = apply_sort_spec (currentSortType b) (filter_tbl fp (filterModel b) (tasksModel b))
   \<and> (currentSortType b = DEFAULT \<longrightarrow> tasks fp b = filter_tbl fp (filterModel b) (tasksModel b))
   \<and> set (filter_tbl fp (filterModel b) (tasksModel b)) = {t \<in> set (tasksModel b). fp (filterModel b) t}
   \<and> set (tasks fp b) = {t \<in> set (tasksModel b). fp (filterModel b) t}
   \<and> subseq (filter_tbl fp (filterModel b) (tasksModel b)) (tasksModel b)"
proof -
  have spec: "tasks fp b = derived_spec (fp (filterModel b)) (currentSortType b) (tasksModel b)"
    by (rule tasks_derived_spec)
  have flt: "set (filter_tbl fp (filterModel b) (tasksModel b)) =
      {t \<in> set (tasksModel b). fp (filterModel b) t}"
    by (simp add: filter_tbl_def)
  have mem: "set (tasks fp b) = {t \<in> set (tasksModel b). fp (filterModel b) t}"
    by (cases "currentSortType b") (simp_all add: spec derived_spec_def apply_sort_spec_def)
  have def: "currentSortType b = DEFAULT \<longrightarrow> tasks fp b = filter_tbl fp (filterModel b) (tasksModel b)"
    by (simp add: tasks_unfold filter_tbl_def)
  have sub: "subseq (filter_tbl fp (filterModel b) (tasksModel b)) (tasksModel b)"
    unfolding filter_tbl_def by (rule subseq_filter_left)
  from spec flt mem def sub show ?thesis
    by (simp add: derived_spec_def filter_tbl_def)
qed

theorem tasks_filter_then_sort_witness:
  "currentSortType (BoardPresenter [example_task 1 None False False, example_task 2 None False True]
      FilterType_FAVORITES) = DEFAULT
   \<and> tasks example_filter (BoardPresenter [example_task 1 None False False, example_task 2 None False True]
      FilterType_FAVORITES) = [example_task 2 None False True]"
proof -
  let ?b = "BoardPresenter [example_task 1 None False False, example_task 2 None False True]
      FilterType_FAVORITES"
  have s: "currentSortType ?b = DEFAULT"
    by (simp add: BoardPresenter_def)
  with tasks_filter_then_sort [of example_filter ?b]
  have "tasks example_filter ?b = filter_tbl example_filter (filterModel ?b) (tasksModel ?b)"
    by blast
  then have "tasks example_filter ?b = [example_task 2 None False True]"
    by (simp add: BoardPresenter_def filter_tbl_def example_filter_def example_task_def)
  with s show ?thesis by blast
qed

text \<open>
  C9. In either date sort mode the sequence the \<^verbatim>\<open>tasks\<close> getter returns has every task
  with a due date in front of every task without one, and the tasks of one sort key (the same
  due date, or no due date) stand in the order the filtered collection has them.
\<close>

theorem date_sort_absent_last_stable:
  assumes "currentSortType b = DATE_UP \<or> currentSortType b = DATE_DOWN"
  shows "tasks fp b =
           filter (\<lambda>t. dueDate t \<noteq> None) (tasks fp b) @ filter (\<lambda>t. dueDate t = None) (tasks fp b)
         \<and> filter (\<lambda>t. dueDate t = k) (tasks fp b) =
           filter (\<lambda>t. dueDate t = k) (filter_tbl fp (filterModel b) (tasksModel b))"
proof -
  let ?fs = "filter (fp (filterModel b)) (tasksModel b)"
  from assms show ?thesis
  proof
    assume up: "currentSortType b = DATE_UP"
    then have t: "tasks fp b = sort_key due_key_up ?fs"
      by (simp add: tasks_unfold array_sort_up)
    show ?thesis
      unfolding t filter_tbl_def
      using sort_key_dated_first [of due_key_up ?fs, OF fst_due_key_up]
        sort_key_same_date [of due_key_up "date_key_up k" k ?fs, OF due_key_up_eq]
      by simp
  next
    assume down: "currentSortType b = DATE_DOWN"
    then have t: "tasks fp b = sort_key due_key_down ?fs"
      by (simp add: tasks_unfold array_sort_down)
    show ?thesis
      unfolding t filter_tbl_def
      using sort_key_dated_first [of due_key_down ?fs, OF fst_due_key_down]
        sort_key_same_date [of due_key_down "date_key_down k" k ?fs, OF due_key_down_eq]
      by simp
  qed
qed

theorem date_sort_absent_last_stable_witness:
  "(currentSortType ((BoardPresenter example_dates FilterType_ALL)\<lparr>currentSortType := DATE_DOWN\<rparr>) = DATE_UP
    \<or> currentSortType ((BoardPresenter example_dates FilterType_ALL)\<lparr>currentSortType := DATE_DOWN\<rparr>) = DATE_DOWN)
   \<and> filter (\<lambda>t. dueDate t = Some 5)
        (tasks example_filter ((BoardPresenter example_dates FilterType_ALL)\<lparr>currentSortType := DATE_DOWN\<rparr>))
      = [example_task 2 (Some 5) False False, example_task 5 (Some 5) False True]"
proof -
  let ?b = "(BoardPresenter example_dates FilterType_ALL)\<lparr>currentSortType := DATE_DOWN\<rparr>"
  have s: "currentSortType ?b = DATE_UP \<or> currentSortType ?b = DATE_DOWN"
    by simp
  from date_sort_absent_last_stable [OF s, of example_filter "Some 5"]
  have "filter (\<lambda>t. dueDate t = Some 5) (tasks example_filter ?b) =
     filter (\<lambda>t. dueDate t = Some 5) (filter_tbl example_filter (filterModel ?b) (tasksModel ?b))"
    by blast
  then have "filter (\<lambda>t. dueDate t = Some 5) (tasks example_filter ?b) =
      [example_task 2 (Some 5) False False, example_task 5 (Some 5) False True]"
    by (simp add: BoardPresenter_def filter_tbl_def example_filter_def example_task_def example_dates_def)
  with s show ?thesis by blast
qed

section \<open>Claims about action routing\<close>




text \<open>
  C2 (as amended). For every \<^verbatim>\<open>UPDATE_TASK\<close> or \<^verbatim>\<open>DELETE_TASK\<close> action whose task id has no
  item presenter in the presenter map, \<^verbatim>\<open>#handleViewAction\<close> invokes no model operation and
  leaves the collection and every controller as they were; it is not a silent no-op, though:
  after \<^verbatim>\<open>block()\<close> the lookup fails and the error leaves \<^verbatim>\<open>#handleViewAction\<close>, nothing
  else having been called.
\<close>

theorem stale_action_throws_before_model:
  assumes "actionType = UPDATE_TASK \<or> actionType = DELETE_TASK"
    and "map_of (taskPresenter b) (id_task update) = None"
  shows "handleViewAction fp actionType updateType update during out b =
           (Some TypeError, b\<lparr>calls := calls b @ [Block]\<rparr>)"
  using assms
  by (auto simp: handleViewAction_def uiBlocker_block_def bind_def call_presenter_def)

text \<open>As stated, C2 fails: an update action for a task that has no item presenter ends in an
  error that leaves \<^verbatim>\<open>#handleViewAction\<close>.\<close>

theorem stale_update_escapes_as_error:
  "map_of (taskPresenter example_board) (id_task (example_task 7 None False False)) = None
   \<and> fst (handleViewAction example_filter UPDATE_TASK PATCH (example_task 7 None False False) []
        (Resolves example_dates (TaskData (example_task 7 None False False))) example_board)
     = Some TypeError"
  by code_simp

theorem stale_action_throws_before_model_witness:
  "(UPDATE_TASK = UPDATE_TASK \<or> UPDATE_TASK = DELETE_TASK)
   \<and> map_of (taskPresenter example_board) (id_task (example_task 7 None False False)) = None
   \<and> handleViewAction example_filter UPDATE_TASK MINOR (example_task 7 None False False)
        [FilterNotice MAJOR FilterType_FAVORITES] (Resolves [] NoData) example_board =
      (Some TypeError, example_board\<lparr>calls := calls example_board @ [Block]\<rparr>)"
proof -
  have h1: "UPDATE_TASK = UPDATE_TASK \<or> UPDATE_TASK = DELETE_TASK"
    by simp
  have h2: "map_of (taskPresenter example_board) (id_task (example_task 7 None False False)) = None"
    by code_simp
  from stale_action_throws_before_model [OF h1 h2] h1 h2 show ?thesis
    by blast
qed




text \<open>
  C8. For every call of \<^verbatim>\<open>createTask\<close>: the sort mode is set to the default, then the filter
  model is asked for the category All with a major update, and only then is the creation
  form initialised, on a board whose sort mode is the default and whose filter is All; both
  still hold when the form is open.
\<close>

theorem createTask_default_sort_all_filter:
  "\<exists>c b'. filterModel_setFilter fp MAJOR FilterType_ALL (b\<lparr>currentSortType := DEFAULT\<rparr>) = (None, c)
      \<and> createTask fp b = taskNewPresenter_init c
      \<and> currentSortType c = DEFAULT \<and> filterModel c = FilterType_ALL
      \<and> filterType c = FilterType_ALL \<and> taskNewPresenter c = Inactive
      \<and> calls c = calls b @ [FilterCall MAJOR FilterType_ALL]
      \<and> createTask fp b = (None, b')
      \<and> currentSortType b' = DEFAULT \<and> filterModel b' = FilterType_ALL
      \<and> filterType b' = FilterType_ALL \<and> taskNewPresenter b' = Active"
  by (simp add: createTask_def filterModel_setFilter_def handleModelEvent_def bind_def
      taskNewPresenter_init_def renderBoard_keeps renderBoard_filterType clearBoard_eq)

section \<open>Claims about re-rendering and pagination\<close>

text \<open>
  C6. For every minor notification: the presenter clears the board (no item presenter, no
  creation form, no sort control, no load-more control, no placeholder, no loading indicator
  is left), sets the rendered count to the minimum of its former value and the length of the
  derived sequence, keeps the sort mode, and renders the board again from that state. After
  the re-render, once loading is over, the presenter map holds a fresh item presenter for each
  of the first so many tasks of the derived sequence and nothing else (for distinct ids: one
  entry per task, in order), the sort control shows the unchanged sort mode when there is a
  task to show, the load-more control is there exactly when the derived sequence is longer
  than the rendered count, and the placeholder is there exactly when there is no task.
\<close>

theorem minor_event_clears_clamps_rerenders:
  "\<exists>c b'. c = clearBoard fp False False b
      \<and> handleModelEvent fp MINOR d b = (None, b') \<and> b' = renderBoard fp c
      \<and> taskPresenter c = [] \<and> sortComponent c = None \<and> \<not> loadMoreButtonComponent c
      \<and> noTaskComponent c = None \<and> \<not> loadingComponent c \<and> taskNewPresenter c = Inactive
      \<and> renderedTaskCount c = min (renderedTaskCount b) (length (tasks fp b))
      \<and> currentSortType c = currentSortType b
      \<and> renderedTaskCount b' = min (renderedTaskCount b) (length (tasks fp b))
      \<and> renderedTaskCount b' \<le> renderedTaskCount b
      \<and> currentSortType b' = currentSortType b
      \<and> tasks fp b' = tasks fp b
      \<and> taskNewPresenter b' = Inactive
      \<and> boardComponent b'
      \<and> loadingComponent b' = isLoading b
      \<and> taskPresenter b' =
           (if isLoading b then [] else presenters_for (take (renderedTaskCount b) (tasks fp b)) [])
      \<and> (\<not> isLoading b \<and> distinct (map id_task (tasks fp b)) \<longrightarrow>
            taskPresenter b' = map fresh_presenter (take (renderedTaskCount b) (tasks fp b)))
      \<and> sortComponent b' =
           (if isLoading b \<or> tasks fp b = [] then None else Some (currentSortType b))
      \<and> loadMoreButtonComponent b' = (\<not> isLoading b \<and> renderedTaskCount b < length (tasks fp b))
      \<and> noTaskComponent b' =
           (if \<not> isLoading b \<and> tasks fp b = [] then Some (filterModel b) else None)"
proof -
  let ?c = "clearBoard fp False False b"
  let ?b' = "renderBoard fp ?c"
  have ev: "handleModelEvent fp MINOR d b = (None, ?b')"
    by (simp add: handleModelEvent_def)
  have c: "taskPresenter ?c = [] \<and> sortComponent ?c = None \<and> \<not> loadMoreButtonComponent ?c
      \<and> noTaskComponent ?c = None \<and> \<not> loadingComponent ?c \<and> taskNewPresenter ?c = Inactive
      \<and> renderedTaskCount ?c = min (renderedTaskCount b) (length (tasks fp b))
      \<and> currentSortType ?c = currentSortType b"
    by (simp add: clearBoard_eq min.commute)
  have t: "tasks fp ?c = tasks fp b"
    by (simp add: tasks_derived_spec clearBoard_eq)
  have l: "isLoading ?c = isLoading b" and f: "filterModel ?c = filterModel b"
    by (simp_all add: clearBoard_eq)
  have keep: "renderedTaskCount ?b' = min (renderedTaskCount b) (length (tasks fp b))
      \<and> renderedTaskCount ?b' \<le> renderedTaskCount b
      \<and> currentSortType ?b' = currentSortType b
      \<and> tasks fp ?b' = tasks fp b
      \<and> taskNewPresenter ?b' = Inactive"
    using c t by (simp add: renderBoard_keeps tasks_renderBoard)
  have shown: "boardComponent ?b'
      \<and> loadingComponent ?b' = isLoading b
      \<and> taskPresenter ?b' =
           (if isLoading b then [] else presenters_for (take (renderedTaskCount b) (tasks fp b)) [])
      \<and> sortComponent ?b' =
           (if isLoading b \<or> tasks fp b = [] then None else Some (currentSortType b))
      \<and> loadMoreButtonComponent ?b' = (\<not> isLoading b \<and> renderedTaskCount b < length (tasks fp b))
      \<and> noTaskComponent ?b' =
           (if \<not> isLoading b \<and> tasks fp b = [] then Some (filterModel b) else None)"
  proof (cases "isLoading b")
    case True
    with l c show ?thesis
      by (simp add: renderBoard_loading)
  next
    case False
    show ?thesis
    proof (cases "tasks fp b = []")
      case True
      with False l t c f show ?thesis
        by (simp add: renderBoard_empty presenters_for_def)
    next
      case ne: False
      have "take (min (renderedTaskCount b) (length (tasks fp b))) (tasks fp b) =
          take (renderedTaskCount b) (tasks fp b)"
        using take_min_length [of "tasks fp b" "renderedTaskCount b"] by (simp add: min.commute)
      with ne False l t c f show ?thesis
        by (simp add: renderBoard_tasks) (auto simp: min_def)
    qed
  qed
  have fresh: "\<not> isLoading b \<and> distinct (map id_task (tasks fp b)) \<longrightarrow>
            taskPresenter ?b' = map fresh_presenter (take (renderedTaskCount b) (tasks fp b))"
  proof
    assume a: "\<not> isLoading b \<and> distinct (map id_task (tasks fp b))"
    then have "distinct (map id_task (take (renderedTaskCount b) (tasks fp b)))"
      by (simp add: take_map [symmetric])
    from presenters_for_fresh [OF this] shown a
    show "taskPresenter ?b' = map fresh_presenter (take (renderedTaskCount b) (tasks fp b))"
      by simp
  qed
  from ev c keep shown fresh show ?thesis
    by simp
qed

theorem minor_event_clears_clamps_rerenders_witness:
  "(\<not> isLoading example_board \<and> distinct (map id_task (tasks example_filter example_board)))
   \<and> fst (handleModelEvent example_filter MINOR NoData example_board) = None
   \<and> taskPresenter (snd (handleModelEvent example_filter MINOR NoData example_board)) =
        map fresh_presenter example_dates
   \<and> sortComponent (snd (handleModelEvent example_filter MINOR NoData example_board)) = Some DEFAULT
   \<and> \<not> loadMoreButtonComponent (snd (handleModelEvent example_filter MINOR NoData example_board))
   \<and> renderedTaskCount (snd (handleModelEvent example_filter MINOR NoData example_board)) = 5
   \<and> (\<not> isLoading example_ten_board \<and> distinct (map id_task (tasks example_filter example_ten_board)))
   \<and> taskPresenter (snd (handleModelEvent example_filter MINOR NoData example_ten_board)) =
        map fresh_presenter (take 8 example_ten)
   \<and> loadMoreButtonComponent (snd (handleModelEvent example_filter MINOR NoData example_ten_board))"
proof -
  have h: "\<not> isLoading example_board \<and> distinct (map id_task (tasks example_filter example_board))"
    by code_simp
  have v: "take (renderedTaskCount example_board) (tasks example_filter example_board) = example_dates"
      "min (renderedTaskCount example_board) (length (tasks example_filter example_board)) = 5"
      "currentSortType example_board = DEFAULT" "tasks example_filter example_board \<noteq> []"
      "renderedTaskCount example_board < length (tasks example_filter example_board) \<longleftrightarrow> False"
    by code_simp+
  from minor_event_clears_clamps_rerenders [of example_filter example_board NoData]
  obtain b' where ev: "handleModelEvent example_filter MINOR NoData example_board = (None, b')"
    and rc: "renderedTaskCount b' =
        min (renderedTaskCount example_board) (length (tasks example_filter example_board))"
    and fr: "\<not> isLoading example_board \<and> distinct (map id_task (tasks example_filter example_board)) \<longrightarrow>
        taskPresenter b' = map fresh_presenter
          (take (renderedTaskCount example_board) (tasks example_filter example_board))"
    and sc: "sortComponent b' =
        (if isLoading example_board \<or> tasks example_filter example_board = [] then None
         else Some (currentSortType example_board))"
    and lm: "loadMoreButtonComponent b' =
        (\<not> isLoading example_board \<and>
         renderedTaskCount example_board < length (tasks example_filter example_board))"
    by blast
  from ev rc fr sc lm h v
  have one: "fst (handleModelEvent example_filter MINOR NoData example_board) = None
   \<and> taskPresenter (snd (handleModelEvent example_filter MINOR NoData example_board)) =
        map fresh_presenter example_dates
   \<and> sortComponent (snd (handleModelEvent example_filter MINOR NoData example_board)) = Some DEFAULT
   \<and> \<not> loadMoreButtonComponent (snd (handleModelEvent example_filter MINOR NoData example_board))
   \<and> renderedTaskCount (snd (handleModelEvent example_filter MINOR NoData example_board)) = 5"
    by simp
  have h': "\<not> isLoading example_ten_board \<and> distinct (map id_task (tasks example_filter example_ten_board))"
    by code_simp
  have v': "take (renderedTaskCount example_ten_board) (tasks example_filter example_ten_board) =
        take 8 example_ten"
      "renderedTaskCount example_ten_board < length (tasks example_filter example_ten_board)"
    by code_simp+
  from minor_event_clears_clamps_rerenders [of example_filter example_ten_board NoData]
  obtain b'' where ev': "handleModelEvent example_filter MINOR NoData example_ten_board = (None, b'')"
    and fr': "\<not> isLoading example_ten_board \<and> distinct (map id_task (tasks example_filter example_ten_board)) \<longrightarrow>
        taskPresenter b'' = map fresh_presenter
          (take (renderedTaskCount example_ten_board) (tasks example_filter example_ten_board))"
    and lm': "loadMoreButtonComponent b'' =
        (\<not> isLoading example_ten_board \<and>
         renderedTaskCount example_ten_board < length (tasks example_filter example_ten_board))"
    by blast
  from ev' fr' lm' h' v'
  have two: "taskPresenter (snd (handleModelEvent example_filter MINOR NoData example_ten_board)) =
        map fresh_presenter (take 8 example_ten)
   \<and> loadMoreButtonComponent (snd (handleModelEvent example_filter MINOR NoData example_ten_board))"
    by simp
  from h one h' two show ?thesis
    by blast
qed

text \<open>
  C4 (as amended). The rendered count does not exceed the length of the derived sequence
  right after a minor notification and right after a load-more click; right after a major
  notification it is the base size 8, as it is after construction and \<^verbatim>\<open>init\<close>, whatever
  the length of the derived sequence; and the number of item presenters a re-render creates
  does not exceed the rendered count nor the length of the derived sequence.
\<close>

theorem renderedTaskCount_after_events:
  "renderedTaskCount (snd (handleModelEvent fp MINOR d b))
     \<le> length (tasks fp (snd (handleModelEvent fp MINOR d b)))
   \<and> renderedTaskCount (snd (handleModelEvent fp MAJOR d b)) = TASK_COUNT_PER_STEP
   \<and> TASK_COUNT_PER_STEP = 8
   \<and> renderedTaskCount (handleLoadMoreButtonClick fp b)
     \<le> length (tasks fp (handleLoadMoreButtonClick fp b))
   \<and> renderedTaskCount (init fp (BoardPresenter ts f)) = TASK_COUNT_PER_STEP
   \<and> (\<not> isLoading b \<longrightarrow>
        length (taskPresenter (renderBoard fp (clearBoard fp r s b)))
          \<le> min (renderedTaskCount (clearBoard fp r s b)) (length (tasks fp (clearBoard fp r s b))))"
proof -
  have minor: "renderedTaskCount (snd (handleModelEvent fp MINOR d b))
     \<le> length (tasks fp (snd (handleModelEvent fp MINOR d b)))"
    by (simp add: handleModelEvent_def renderBoard_keeps tasks_renderBoard)
       (simp add: clearBoard_eq tasks_derived_spec)
  have major: "renderedTaskCount (snd (handleModelEvent fp MAJOR d b)) = TASK_COUNT_PER_STEP"
    by (simp add: handleModelEvent_def renderBoard_keeps clearBoard_eq)
  have more: "renderedTaskCount (handleLoadMoreButtonClick fp b)
     \<le> length (tasks fp (handleLoadMoreButtonClick fp b))"
    by (simp add: tasks_handleLoadMore) (simp add: handleLoadMoreButtonClick_eq)
  have start: "renderedTaskCount (init fp (BoardPresenter ts f)) = TASK_COUNT_PER_STEP"
    by (simp add: init_def renderBoard_keeps BoardPresenter_def)
  have shown: "\<not> isLoading b \<longrightarrow>
        length (taskPresenter (renderBoard fp (clearBoard fp r s b)))
          \<le> min (renderedTaskCount (clearBoard fp r s b)) (length (tasks fp (clearBoard fp r s b)))"
  proof
    let ?c = "clearBoard fp r s b"
    assume "\<not> isLoading b"
    then have l: "\<not> isLoading ?c" by (simp add: clearBoard_eq)
    have e: "taskPresenter ?c = []" by (simp add: clearBoard_eq)
    show "length (taskPresenter (renderBoard fp ?c))
          \<le> min (renderedTaskCount ?c) (length (tasks fp ?c))"
    proof (cases "tasks fp ?c = []")
      case True
      with l e show ?thesis by (simp add: renderBoard_empty)
    next
      case False
      with l e length_presenters_for [of "take (renderedTaskCount ?c) (tasks fp ?c)" "[]"]
      show ?thesis by (simp add: renderBoard_tasks min.commute)
    qed
  qed
  from minor major more start shown show ?thesis
    by (simp add: TASK_COUNT_PER_STEP_def)
qed

text \<open>As stated, C4 fails: with five tasks loaded, the rendered count is 8 after the first
  render.\<close>

theorem renderedTaskCount_exceeds_short_sequence:
  "\<not> renderedTaskCount example_board \<le> length (tasks example_filter example_board)"
  by code_simp

theorem renderedTaskCount_after_events_witness:
  "\<not> isLoading example_board
   \<and> length (taskPresenter (renderBoard example_filter (clearBoard example_filter False False example_board)))
       \<le> min (renderedTaskCount (clearBoard example_filter False False example_board))
             (length (tasks example_filter (clearBoard example_filter False False example_board)))
   \<and> renderedTaskCount (snd (handleModelEvent example_filter MINOR NoData example_board))
       \<le> length (tasks example_filter (snd (handleModelEvent example_filter MINOR NoData example_board)))"
proof -
  have h: "\<not> isLoading example_board"
    by code_simp
  from renderedTaskCount_after_events [of example_filter NoData example_board "[]" FilterType_ALL False False] h
  show ?thesis
    by blast
qed

text \<open>
  C7. For every load-more click: the rendered count becomes the minimum of the length of the
  derived sequence and the former count plus the step 8; the tasks rendered are those of the
  derived sequence from the former count up to the new one, which are the ones the longer
  window adds; the load-more control is removed exactly when the new count is the length of
  the derived sequence; the derived sequence stays the same. In particular, for ten visible
  tasks with distinct ids, the first render after loading shows the first eight and the
  control, and one click shows all ten and removes the control.
\<close>

theorem load_more_reveals_next_step:
  "renderedTaskCount (handleLoadMoreButtonClick fp b) =
      min (length (tasks fp b)) (renderedTaskCount b + TASK_COUNT_PER_STEP)
   \<and> TASK_COUNT_PER_STEP = 8
   \<and> taskPresenter (handleLoadMoreButtonClick fp b) =
      taskPresenter (renderTasks
        (slice (renderedTaskCount b) (renderedTaskCount (handleLoadMoreButtonClick fp b)) (tasks fp b)) b)
   \<and> (renderedTaskCount b \<le> length (tasks fp b) \<longrightarrow>
        take (renderedTaskCount (handleLoadMoreButtonClick fp b)) (tasks fp b) =
          take (renderedTaskCount b) (tasks fp b) @
          slice (renderedTaskCount b) (renderedTaskCount (handleLoadMoreButtonClick fp b)) (tasks fp b))
   \<and> (loadMoreButtonComponent (handleLoadMoreButtonClick fp b) \<longleftrightarrow>
        loadMoreButtonComponent b \<and>
        renderedTaskCount (handleLoadMoreButtonClick fp b) \<noteq> length (tasks fp b))
   \<and> tasks fp (handleLoadMoreButtonClick fp b) = tasks fp b
   \<and> (length (filter (fp f) ts) = 10 \<and> distinct (map id_task ts) \<longrightarrow>
        (let b1 = snd (handleModelEvent fp INIT NoData (init fp (BoardPresenter ts f)));
             b2 = handleLoadMoreButtonClick fp b1
         in taskPresenter b1 = map fresh_presenter (take 8 (filter (fp f) ts))
            \<and> length (taskPresenter b1) = 8
            \<and> loadMoreButtonComponent b1
            \<and> taskPresenter b2 = map fresh_presenter (filter (fp f) ts)
            \<and> length (taskPresenter b2) = 10
            \<and> renderedTaskCount b2 = 10
            \<and> \<not> loadMoreButtonComponent b2))"
proof -
  let ?b' = "handleLoadMoreButtonClick fp b"
  have count: "renderedTaskCount ?b' = min (length (tasks fp b)) (renderedTaskCount b + TASK_COUNT_PER_STEP)"
    by (simp add: handleLoadMoreButtonClick_eq)
  have rendered: "taskPresenter ?b' =
      taskPresenter (renderTasks (slice (renderedTaskCount b) (renderedTaskCount ?b') (tasks fp b)) b)"
    by (simp add: count renderTasks_eq) (simp add: handleLoadMoreButtonClick_eq)
  have window: "renderedTaskCount b \<le> length (tasks fp b) \<longrightarrow>
        take (renderedTaskCount ?b') (tasks fp b) =
          take (renderedTaskCount b) (tasks fp b) @
          slice (renderedTaskCount b) (renderedTaskCount ?b') (tasks fp b)"
    by (auto simp: count intro!: take_slice)
  have button: "loadMoreButtonComponent ?b' \<longleftrightarrow>
        loadMoreButtonComponent b \<and> renderedTaskCount ?b' \<noteq> length (tasks fp b)"
    by (simp add: count) (auto simp: handleLoadMoreButtonClick_eq)
  have scenario: "length (filter (fp f) ts) = 10 \<and> distinct (map id_task ts) \<longrightarrow>
        (let b1 = snd (handleModelEvent fp INIT NoData (init fp (BoardPresenter ts f)));
             b2 = handleLoadMoreButtonClick fp b1
         in taskPresenter b1 = map fresh_presenter (take 8 (filter (fp f) ts))
            \<and> length (taskPresenter b1) = 8
            \<and> loadMoreButtonComponent b1
            \<and> taskPresenter b2 = map fresh_presenter (filter (fp f) ts)
            \<and> length (taskPresenter b2) = 10
            \<and> renderedTaskCount b2 = 10
            \<and> \<not> loadMoreButtonComponent b2)"
  proof
    let ?fs = "filter (fp f) ts"
    let ?b0 = "(init fp (BoardPresenter ts f))\<lparr>isLoading := False, loadingComponent := False\<rparr>"
    let ?b1 = "renderBoard fp ?b0"
    let ?b2 = "handleLoadMoreButtonClick fp ?b1"
    assume a: "length ?fs = 10 \<and> distinct (map id_task ts)"
    then have d: "distinct (map id_task ?fs)"
      by (simp add: distinct_map_filter)
    have d8: "distinct (map id_task (take 8 ?fs))"
      using d by (simp add: take_map [symmetric])
    have ne: "?fs \<noteq> []" using a by auto
    have b0: "tasks fp ?b0 = ?fs" "\<not> isLoading ?b0" "renderedTaskCount ?b0 = 8"
        "taskPresenter ?b0 = []" "\<not> loadMoreButtonComponent ?b0"
      by (simp_all add: tasks_derived_spec derived_spec_def apply_sort_spec_def init_def
          renderBoard_loading BoardPresenter_def TASK_COUNT_PER_STEP_def)
    have p1: "taskPresenter ?b1 = map fresh_presenter (take 8 ?fs)"
      using b0 ne presenters_for_distinct [OF d8, of "[]"] by (simp add: renderBoard_tasks)
    have l1: "loadMoreButtonComponent ?b1"
      using b0 ne a by (simp add: renderBoard_tasks)
    have t1: "tasks fp ?b1 = ?fs" "renderedTaskCount ?b1 = 8"
      using b0 by (simp_all add: tasks_renderBoard renderBoard_keeps)
    have sl: "slice 8 10 ?fs = drop 8 ?fs"
      using a by (simp add: slice_def)
    have "distinct (map id_task (take 8 ?fs) @ map id_task (drop 8 ?fs))"
      using d by (simp only: map_append [symmetric] append_take_drop_id)
    then have dd0: "distinct (map id_task (drop 8 ?fs))"
        "set (map id_task (take 8 ?fs)) \<inter> set (map id_task (drop 8 ?fs)) = {}"
      by (simp_all only: distinct_append)
    have "fst ` set (map fresh_presenter (take 8 ?fs)) = set (map id_task (take 8 ?fs))"
      by (simp add: fresh_presenter_def image_image)
    with dd0 have dd: "distinct (map id_task (drop 8 ?fs))"
        "id_task ` set (drop 8 ?fs) \<inter> fst ` set (map fresh_presenter (take 8 ?fs)) = {}"
      by (simp_all add: Int_commute)
    have p2: "taskPresenter ?b2 = map fresh_presenter ?fs"
    proof -
      have "taskPresenter ?b2 = presenters_for (drop 8 ?fs) (map fresh_presenter (take 8 ?fs))"
        using t1 a p1 sl by (simp add: handleLoadMoreButtonClick_eq TASK_COUNT_PER_STEP_def)
      also have "\<dots> = map fresh_presenter (take 8 ?fs) @ map fresh_presenter (drop 8 ?fs)"
        by (rule presenters_for_distinct [OF dd])
      also have "\<dots> = map fresh_presenter ?fs"
        by (simp add: map_append [symmetric] del: map_append)
      finally show ?thesis .
    qed
    have c2: "renderedTaskCount ?b2 = 10" "\<not> loadMoreButtonComponent ?b2"
      using t1 a by (simp_all add: handleLoadMoreButtonClick_eq TASK_COUNT_PER_STEP_def)
    have "snd (handleModelEvent fp INIT NoData (init fp (BoardPresenter ts f))) = ?b1"
      by (simp add: handleModelEvent_def)
    with p1 l1 p2 c2 a show "(let b1 = snd (handleModelEvent fp INIT NoData (init fp (BoardPresenter ts f)));
             b2 = handleLoadMoreButtonClick fp b1
         in taskPresenter b1 = map fresh_presenter (take 8 (filter (fp f) ts))
            \<and> length (taskPresenter b1) = 8
            \<and> loadMoreButtonComponent b1
            \<and> taskPresenter b2 = map fresh_presenter (filter (fp f) ts)
            \<and> length (taskPresenter b2) = 10
            \<and> renderedTaskCount b2 = 10
            \<and> \<not> loadMoreButtonComponent b2)"
      by (simp add: Let_def)
  qed
  from count rendered window button scenario show ?thesis
    by (simp add: tasks_handleLoadMore TASK_COUNT_PER_STEP_def)
qed

theorem load_more_reveals_next_step_witness:
  "renderedTaskCount example_ten_board \<le> length (tasks example_filter example_ten_board)
   \<and> (length (filter (example_filter FilterType_ALL) example_ten) = 10
        \<and> distinct (map id_task example_ten))
   \<and> length (taskPresenter example_ten_board) = 8
   \<and> loadMoreButtonComponent example_ten_board
   \<and> length (taskPresenter (handleLoadMoreButtonClick example_filter example_ten_board)) = 10
   \<and> \<not> loadMoreButtonComponent (handleLoadMoreButtonClick example_filter example_ten_board)
   \<and> take (renderedTaskCount (handleLoadMoreButtonClick example_filter example_ten_board))
        (tasks example_filter example_ten_board) =
      take (renderedTaskCount example_ten_board) (tasks example_filter example_ten_board) @
      slice (renderedTaskCount example_ten_board)
        (renderedTaskCount (handleLoadMoreButtonClick example_filter example_ten_board))
        (tasks example_filter example_ten_board)"
proof -
  have h1: "renderedTaskCount example_ten_board \<le> length (tasks example_filter example_ten_board)"
    by code_simp
  have h2: "length (filter (example_filter FilterType_ALL) example_ten) = 10
        \<and> distinct (map id_task example_ten)"
    by code_simp
  note t = load_more_reveals_next_step [of example_filter example_ten_board FilterType_ALL example_ten]
  from t h1 have w: "take (renderedTaskCount (handleLoadMoreButtonClick example_filter example_ten_board))
        (tasks example_filter example_ten_board) =
      take (renderedTaskCount example_ten_board) (tasks example_filter example_ten_board) @
      slice (renderedTaskCount example_ten_board)
        (renderedTaskCount (handleLoadMoreButtonClick example_filter example_ten_board))
        (tasks example_filter example_ten_board)"
    by blast
  from t h2 have "let b1 = snd (handleModelEvent example_filter INIT NoData
                 (init example_filter (BoardPresenter example_ten FilterType_ALL)));
             b2 = handleLoadMoreButtonClick example_filter b1
         in taskPresenter b1 = map fresh_presenter (take 8 (filter (example_filter FilterType_ALL) example_ten))
            \<and> length (taskPresenter b1) = 8
            \<and> loadMoreButtonComponent b1
            \<and> taskPresenter b2 = map fresh_presenter (filter (example_filter FilterType_ALL) example_ten)
            \<and> length (taskPresenter b2) = 10
            \<and> renderedTaskCount b2 = 10
            \<and> \<not> loadMoreButtonComponent b2"
    by blast
  then have s: "length (taskPresenter example_ten_board) = 8
      \<and> loadMoreButtonComponent example_ten_board
      \<and> length (taskPresenter (handleLoadMoreButtonClick example_filter example_ten_board)) = 10
      \<and> \<not> loadMoreButtonComponent (handleLoadMoreButtonClick example_filter example_ten_board)"
    unfolding Let_def example_ten_board_def [symmetric] by blast
  from h1 h2 w s show ?thesis
    by blast
qed

section \<open>Claims about the task card\<close>

text \<open>
  C10. For every task, the card markup contains the description only as the result of the
  escaping function: the markup is a text in front, the escaped description, and a text
  behind, and neither text depends on the description.
\<close>

theorem template_description_only_encoded:
  "\<exists>pre post. \<forall>d. createTaskTemplate u (task\<lparr>description := d\<rparr>) = pre @ he_encode u d @ post"
  unfolding createTaskTemplate_def Let_def task_fields_without_description
  by (intro outside_encode_step outside_encode_base)

end
